theory Spec2Isabelle
  imports Main "HOL-Library.Sublist"
begin

section \<open>The cache-aside data access service (services/base_service.py)\<close>

text \<open>
  \<open>BaseDataService\<close> reads documents by id or by query, first from Redis and then from
  ElasticSearch, and writes what ElasticSearch returned back to Redis. The two clients,
  the pydantic classes \<open>Film\<close>, \<open>Person\<close>, \<open>Genre\<close> and Python's \<open>hash\<close> and \<open>str\<close> are
  not part of the service: the classes (of \<open>models/models.py\<close>) and the built-ins
  are parameters (a \<open>runtime\<close>), the two stores behind \<open>self.redis\<close> and
  \<open>self.elastic\<close> are the state (a \<open>world\<close>). Every coroutine of the
  service is a function from the world to a result and the new world; a raised exception
  is \<open>Inl\<close>.
\<close>

subsection \<open>Exceptions and the exception-state monad\<close>

datatype exn =
    NotFoundError      \<comment> \<open>elasticsearch.NotFoundError\<close>
  | KeyError           \<comment> \<open>a missing key of the dict \<open>MODELS\<close>\<close>
  | ValidationError    \<comment> \<open>pydantic: the payload does not conform to the class\<close>
  | ResponseError      \<comment> \<open>Redis: WRONGTYPE, wrong number of arguments\<close>
  | TypeError          \<comment> \<open>a call with a keyword the function does not have\<close>
  | ConnectionError
  | ConnectionTimeout

type_synonym ('a, 'w) coroutine = "'w \<Rightarrow> (exn + 'a) \<times> 'w"

definition return :: "'a \<Rightarrow> ('a, 'w) coroutine" where
  "return a w = (Inr a, w)"

definition raise :: "exn \<Rightarrow> ('a, 'w) coroutine" where
  "raise e w = (Inl e, w)"

text \<open>\<open>await m\<close> followed by the rest of the body; an exception ends the body.\<close>

definition await :: "('a, 'w) coroutine \<Rightarrow> ('a \<Rightarrow> ('b, 'w) coroutine) \<Rightarrow> ('b, 'w) coroutine" where
  "await m f w = (case m w of (Inl e, w') \<Rightarrow> (Inl e, w') | (Inr a, w') \<Rightarrow> f a w')"

text \<open>\<open>try: body except NotFoundError: handler\<close>; every other exception passes.\<close>

definition try_except_NotFoundError ::
  "('a, 'w) coroutine \<Rightarrow> ('a, 'w) coroutine \<Rightarrow> ('a, 'w) coroutine" where
  "try_except_NotFoundError body handler w =
     (case body w of
        (Inl e, w') \<Rightarrow> if e = NotFoundError then handler w' else (Inl e, w')
      | (Inr a, w') \<Rightarrow> (Inr a, w'))"

text \<open>
  A coroutine object that is created and never awaited does nothing; as a Python object
  it has neither \<open>__bool__\<close> nor \<open>__len__\<close>, so it is true in a condition.
\<close>

definition truthy_coroutine :: "('a, 'w) coroutine \<Rightarrow> bool" where
  "truthy_coroutine c = True"

subsection \<open>The Redis client\<close>

text \<open>
  One keyspace; a key holds a string (with its time to live in seconds, when it has one)
  or a list. A command on a key of the other type is refused (WRONGTYPE), but \<open>SET\<close>
  overwrites whatever the key held.
\<close>

datatype rvalue = RString string "nat option" | RList "string list"

type_synonym redis_db = "string \<rightharpoonup> rvalue"

datatype redis_cmd =
    EXISTS string
  | GET string
  | SET string string "nat option"
  | LRANGE string int int
  | RPUSH string "string list"

datatype 'body es_request = EsGet string string | EsSearch string 'body

record ('body, 'src) world =
  redis_db :: redis_db
  redis_fault :: "redis_cmd \<Rightarrow> exn option"
  redis_log :: "redis_cmd list"
  elastic_get :: "string \<Rightarrow> string \<Rightarrow> exn + 'src"
  elastic_search :: "string \<Rightarrow> 'body \<Rightarrow> exn + 'src list"
  elastic_log :: "'body es_request list"
  logging :: "string list"

text \<open>
  \<open>LRANGE key start stop\<close>: the elements from index \<open>start\<close> to index \<open>stop\<close>, both
  included; a negative index counts from the end of the list; indices out of range are
  cut to the list.
\<close>

definition lrange_slice :: "'a list \<Rightarrow> int \<Rightarrow> int \<Rightarrow> 'a list" where
  "lrange_slice xs start stop =
     (let n = int (length xs);
          s = (if start < 0 then max 0 (n + start) else start);
          e = (if stop < 0 then n + stop else stop)
      in take (nat (e + 1 - s)) (drop (nat s) xs))"

definition exists_reply :: "string \<Rightarrow> redis_db \<Rightarrow> (exn + bool) \<times> redis_db" where
  "exists_reply k db = (Inr (db k \<noteq> None), db)"

definition get_reply :: "string \<Rightarrow> redis_db \<Rightarrow> (exn + string option) \<times> redis_db" where
  "get_reply k db =
     (case db k of
        None \<Rightarrow> (Inr None, db)
      | Some (RString v ttl) \<Rightarrow> (Inr (Some v), db)
      | Some (RList xs) \<Rightarrow> (Inl ResponseError, db))"

definition set_reply ::
  "string \<Rightarrow> string \<Rightarrow> nat option \<Rightarrow> redis_db \<Rightarrow> (exn + unit) \<times> redis_db" where
  "set_reply k v ttl db = (Inr (), db(k \<mapsto> RString v ttl))"

definition lrange_reply ::
  "string \<Rightarrow> int \<Rightarrow> int \<Rightarrow> redis_db \<Rightarrow> (exn + string list) \<times> redis_db" where
  "lrange_reply k start stop db =
     (case db k of
        None \<Rightarrow> (Inr [], db)
      | Some (RList xs) \<Rightarrow> (Inr (lrange_slice xs start stop), db)
      | Some (RString v ttl) \<Rightarrow> (Inl ResponseError, db))"

definition rpush_reply :: "string \<Rightarrow> string list \<Rightarrow> redis_db \<Rightarrow> (exn + unit) \<times> redis_db" where
  "rpush_reply k vs db =
     (if vs = [] then (Inl ResponseError, db)
      else case db k of
        None \<Rightarrow> (Inr (), db(k \<mapsto> RList vs))
      | Some (RList xs) \<Rightarrow> (Inr (), db(k \<mapsto> RList (xs @ vs)))
      | Some (RString v ttl) \<Rightarrow> (Inl ResponseError, db))"

text \<open>
  A command that is awaited is sent (and logged); the connection may fail on it
  (\<open>redis_fault\<close>), otherwise the server answers and the keyspace changes.
\<close>

definition redis_command ::
  "redis_cmd \<Rightarrow> (redis_db \<Rightarrow> (exn + 'a) \<times> redis_db) \<Rightarrow> ('a, ('body, 'src) world) coroutine" where
  "redis_command c reply w =
     (let w1 = w\<lparr>redis_log := redis_log w @ [c]\<rparr>
      in case redis_fault w c of
           Some e \<Rightarrow> (Inl e, w1)
         | None \<Rightarrow> (case reply (redis_db w) of (r, db') \<Rightarrow> (r, w1\<lparr>redis_db := db'\<rparr>)))"

definition redis_exists :: "string \<Rightarrow> (bool, ('body, 'src) world) coroutine" where
  "redis_exists k = redis_command (EXISTS k) (exists_reply k)"

definition redis_get :: "string \<Rightarrow> (string option, ('body, 'src) world) coroutine" where
  "redis_get k = redis_command (GET k) (get_reply k)"

text \<open>
  \<open>set\<close> of \<open>redis.asyncio.Redis\<close> is declared
  \<open>set(name, value, ex, px, nx, xx, keepttl, get, exat, pxat)\<close>. A call with any other
  keyword raises \<open>TypeError\<close> where it is made, so no command is sent; otherwise the
  command is \<open>SET\<close>, with the time to live given by \<open>ex\<close>.
\<close>

definition set_keywords :: "string list" where
  "set_keywords = [''ex'', ''px'', ''nx'', ''xx'', ''keepttl'', ''get'', ''exat'', ''pxat'']"

definition redis_set ::
  "string \<Rightarrow> string \<Rightarrow> (string \<times> nat) list \<Rightarrow> (unit, ('body, 'src) world) coroutine" where
  "redis_set k v kwargs =
     (if list_ex (\<lambda>kw. fst kw \<notin> set set_keywords) kwargs then raise TypeError
      else redis_command (SET k v (map_of kwargs ''ex'')) (set_reply k v (map_of kwargs ''ex'')))"

definition redis_lrange :: "string \<Rightarrow> int \<Rightarrow> int \<Rightarrow> (string list, ('body, 'src) world) coroutine" where
  "redis_lrange k start stop = redis_command (LRANGE k start stop) (lrange_reply k start stop)"

definition redis_rpush :: "string \<Rightarrow> string list \<Rightarrow> (unit, ('body, 'src) world) coroutine" where
  "redis_rpush k vs = redis_command (RPUSH k vs) (rpush_reply k vs)"

subsection \<open>The ElasticSearch client and the logger\<close>

text \<open>
  \<open>elastic.get\<close> answers with the document's \<open>_source\<close> or raises; \<open>elastic.search\<close>
  answers with the \<open>_source\<close> of every hit of \<open>data['hits']['hits']\<close>, in the order of
  the response, or raises. The service never writes to ElasticSearch.
\<close>

definition es_get :: "string \<Rightarrow> string \<Rightarrow> ('src, ('body, 'src) world) coroutine" where
  "es_get index ident w =
     (elastic_get w index ident, w\<lparr>elastic_log := elastic_log w @ [EsGet index ident]\<rparr>)"

definition es_search :: "string \<Rightarrow> 'body \<Rightarrow> ('src list, ('body, 'src) world) coroutine" where
  "es_search index body w =
     (elastic_search w index body, w\<lparr>elastic_log := elastic_log w @ [EsSearch index body]\<rparr>)"

definition logging_info :: "string \<Rightarrow> string \<Rightarrow> (unit, ('body, 'src) world) coroutine" where
  "logging_info service text w =
     (Inr (), w\<lparr>logging := logging w @ [''['' @ service @ ''] '' @ text]\<rparr>)"

subsection \<open>The pydantic classes and the built-ins\<close>

text \<open>
  A class of \<open>models.models\<close>: \<open>construct\<close> is \<open>Model(**source)\<close> and \<open>parse_raw\<close> is
  \<open>Model.parse_raw(payload)\<close>; both raise \<open>ValidationError\<close> (here \<open>None\<close>) on a payload
  that does not conform. \<open>json\<close> is \<open>doc.json()\<close> and \<open>id_str\<close> is \<open>doc.id\<close> as the
  f-string formats it.
\<close>

record ('src, 'rec) model =
  construct :: "'src \<Rightarrow> 'rec option"
  parse_raw :: "string \<Rightarrow> 'rec option"

record ('body, 'src, 'rec) runtime =
  Film :: "('src, 'rec) model"
  Person :: "('src, 'rec) model"
  Genre :: "('src, 'rec) model"
  json :: "'rec \<Rightarrow> string"
  id_str :: "'rec \<Rightarrow> string"
  str_body :: "'body \<Rightarrow> string"
  hash :: "string \<Rightarrow> int"

definition MODELS :: "('body, 'src, 'rec) runtime \<Rightarrow> string \<rightharpoonup> ('src, 'rec) model" where
  "MODELS rt = [''movies'' \<mapsto> Film rt, ''persons'' \<mapsto> Person rt, ''genres'' \<mapsto> Genre rt]"

definition CACHE_EXPIRE_IN_SECONDS :: nat where
  "CACHE_EXPIRE_IN_SECONDS = 60 * 5"

text \<open>\<open>str\<close> of an integer: its decimal digits, with a minus sign when negative.\<close>

fun str_nat :: "nat \<Rightarrow> string" where
  "str_nat n = (if n < 10 then [char_of (48 + n)] else str_nat (n div 10) @ [char_of (48 + n mod 10)])"

declare str_nat.simps [simp del]

definition str_int :: "int \<Rightarrow> string" where
  "str_int i = (if i < 0 then CHR ''-'' # str_nat (nat (- i)) else str_nat (nat i))"

text \<open>\<open>not data\<close> for bytes or \<open>None\<close>, and \<open>not index_name\<close> for a string or \<open>None\<close>.\<close>

definition truthy :: "string option \<Rightarrow> bool" where
  "truthy data = (case data of None \<Rightarrow> False | Some b \<Rightarrow> b \<noteq> [])"

subsection \<open>BaseDataService\<close>

record service =
  index_name :: string
  service_name :: string

definition BaseDataService :: "string option \<Rightarrow> string option \<Rightarrow> service" where
  "BaseDataService idx name =
     \<lparr>index_name = (case idx of None \<Rightarrow> '''' | Some i \<Rightarrow> i),
      service_name = (case name of None \<Rightarrow> ''base'' | Some n \<Rightarrow> n)\<rparr>"

text \<open>
  \<open>_get_item_from_cache\<close>: the condition is the coroutine object of
  \<open>redis.exists(doc_id)\<close>, which is not awaited.
\<close>

definition get_item_from_cache ::
  "service \<Rightarrow> string \<Rightarrow> (string option, ('body, 'src) world) coroutine" where
  "get_item_from_cache self doc_id =
     (if truthy_coroutine (redis_exists doc_id :: (bool, ('body, 'src) world) coroutine) then
        await (logging_info (service_name self) ''from cache by id'')
          (\<lambda>_. redis_get (index_name self @ doc_id))
      else return None)"

definition put_item_to_cache ::
  "('body, 'src, 'rec) runtime \<Rightarrow> service \<Rightarrow> 'rec \<Rightarrow> (unit, ('body, 'src) world) coroutine" where
  "put_item_to_cache rt self doc =
     await (logging_info (service_name self) ''write to cache by id'')
       (\<lambda>_. redis_set (index_name self @ id_str rt doc) (json rt doc)
              [(''expire'', CACHE_EXPIRE_IN_SECONDS)])"

definition get_item_from_elastic ::
  "('body, 'src, 'rec) runtime \<Rightarrow> service \<Rightarrow> string \<Rightarrow> ('rec option, ('body, 'src) world) coroutine" where
  "get_item_from_elastic rt self doc_id =
     try_except_NotFoundError
       (await (es_get (index_name self) doc_id) (\<lambda>doc.
        await (logging_info (service_name self) ''from elastic by id'') (\<lambda>_.
        case MODELS rt (index_name self) of
          None \<Rightarrow> raise KeyError
        | Some m \<Rightarrow> (case construct m doc of
                       None \<Rightarrow> raise ValidationError
                     | Some result \<Rightarrow> return (Some result)))))
       (await (logging_info (service_name self) ''can't find in elastic by id'')
          (\<lambda>_. return None))"

definition get_by_id ::
  "('body, 'src, 'rec) runtime \<Rightarrow> service \<Rightarrow> string \<Rightarrow> ('rec option, ('body, 'src) world) coroutine" where
  "get_by_id rt self doc_id =
     await (get_item_from_cache self doc_id) (\<lambda>data.
       if \<not> truthy data then
         await (get_item_from_elastic rt self doc_id) (\<lambda>data.
           case data of
             None \<Rightarrow> return None
           | Some doc \<Rightarrow> await (put_item_to_cache rt self doc) (\<lambda>_. return (Some doc)))
       else
         (case MODELS rt (index_name self) of
            None \<Rightarrow> raise KeyError
          | Some m \<Rightarrow> (case parse_raw m (the data) of
                         None \<Rightarrow> raise ValidationError
                       | Some doc \<Rightarrow> return (Some doc))))"

definition get_full_data_from_cache ::
  "service \<Rightarrow> string \<Rightarrow> int \<Rightarrow> (string list, ('body, 'src) world) coroutine" where
  "get_full_data_from_cache self key redis_range = redis_lrange key 0 redis_range"

definition put_full_data_to_cache ::
  "service \<Rightarrow> string list \<Rightarrow> string \<Rightarrow> (unit, ('body, 'src) world) coroutine" where
  "put_full_data_to_cache self data key =
     await (logging_info (service_name self) ''write film_data to cache'')
       (\<lambda>_. redis_rpush key data)"

definition get_hash :: "('body, 'src, 'rec) runtime \<Rightarrow> string \<Rightarrow> string" where
  "get_hash rt kwargs = str_int (hash rt kwargs)"

text \<open>
  The two list comprehensions: the subscript \<open>MODELS[self.index_name]\<close> is evaluated
  for every element, so an empty list raises nothing; the first element that fails
  ends the comprehension.
\<close>

fun construct_hits ::
  "('body, 'src, 'rec) runtime \<Rightarrow> service \<Rightarrow> 'src list \<Rightarrow> exn + 'rec list" where
  "construct_hits rt self [] = Inr []"
| "construct_hits rt self (item # items) =
     (case MODELS rt (index_name self) of
        None \<Rightarrow> Inl KeyError
      | Some m \<Rightarrow> (case construct m item of
                     None \<Rightarrow> Inl ValidationError
                   | Some doc \<Rightarrow> (case construct_hits rt self items of
                                   Inl e \<Rightarrow> Inl e
                                 | Inr docs \<Rightarrow> Inr (doc # docs))))"

fun parse_items ::
  "('body, 'src, 'rec) runtime \<Rightarrow> service \<Rightarrow> string list \<Rightarrow> exn + 'rec list" where
  "parse_items rt self [] = Inr []"
| "parse_items rt self (item # items) =
     (case MODELS rt (index_name self) of
        None \<Rightarrow> Inl KeyError
      | Some m \<Rightarrow> (case parse_raw m item of
                     None \<Rightarrow> Inl ValidationError
                   | Some doc \<Rightarrow> (case parse_items rt self items of
                                   Inl e \<Rightarrow> Inl e
                                 | Inr docs \<Rightarrow> Inr (doc # docs))))"

definition lift :: "exn + 'a \<Rightarrow> ('a, 'w) coroutine" where
  "lift r w = (r, w)"

definition get_data_from_elastic ::
  "('body, 'src, 'rec) runtime \<Rightarrow> service \<Rightarrow> 'body \<Rightarrow> string \<Rightarrow>
   ('rec list option, ('body, 'src) world) coroutine" where
  "get_data_from_elastic rt self body index =
     try_except_NotFoundError
       (await (es_search index body) (\<lambda>data.
        await (lift (construct_hits rt self data)) (\<lambda>data.
        await (logging_info (service_name self) ''get data from elastic'') (\<lambda>_.
        return (Some data)))))
       (await (logging_info (service_name self) ''can't find data in elastic'')
          (\<lambda>_. return None))"

definition get_data ::
  "('body, 'src, 'rec) runtime \<Rightarrow> service \<Rightarrow> 'body \<Rightarrow> int \<Rightarrow> string option \<Rightarrow>
   ('rec list option, ('body, 'src) world) coroutine" where
  "get_data rt self body sz index_name_arg =
     (let index = (if \<not> truthy index_name_arg then index_name self else the index_name_arg);
          redis_key = get_hash rt (str_body rt body @ index)
      in await (get_full_data_from_cache self redis_key sz) (\<lambda>data.
           if data = [] then
             await (get_data_from_elastic rt self body index) (\<lambda>data.
               if data = None \<or> data = Some [] then return None
               else
                 (let cache_data = map (json rt) (the data)
                  in await (put_full_data_to_cache self cache_data redis_key)
                       (\<lambda>_. return data)))
           else
             await (lift (parse_items rt self data)) (\<lambda>data.
             await (logging_info (service_name self) ''data from cache'') (\<lambda>_.
             return (Some data)))))"

subsection \<open>A concrete runtime and world\<close>

text \<open>
  A small instance on which the theorems below are evaluated: a genre is its id and its
  name, serialised as \<open>id:name\<close>; a source with an empty id does not conform, and
  neither does a payload without a colon.
\<close>

definition GenreModel :: "(string \<times> string, string \<times> string) model" where
  "GenreModel =
     \<lparr>construct = (\<lambda>(i, n). if i = [] then None else Some (i, n)),
      parse_raw = (\<lambda>s. if CHR '':'' \<in> set s
                        then Some (takeWhile (\<lambda>c. c \<noteq> CHR '':'') s,
                                   tl (dropWhile (\<lambda>c. c \<noteq> CHR '':'') s))
                        else None)\<rparr>"

definition example_runtime :: "(string, string \<times> string, string \<times> string) runtime" where
  "example_runtime =
     \<lparr>Film = GenreModel, Person = GenreModel, Genre = GenreModel,
      json = (\<lambda>(i, n). i @ '':'' @ n),
      id_str = fst,
      str_body = (\<lambda>b. b),
      hash = (\<lambda>s. int (length s) - 20)\<rparr>"

definition example_world ::
  "redis_db \<Rightarrow> (string \<Rightarrow> string \<Rightarrow> exn + string \<times> string) \<Rightarrow>
   (string \<Rightarrow> string \<Rightarrow> exn + (string \<times> string) list) \<Rightarrow> (string, string \<times> string) world" where
  "example_world db g s =
     \<lparr>redis_db = db, redis_fault = (\<lambda>_. None), redis_log = [],
      elastic_get = g, elastic_search = s, elastic_log = [], logging = []\<rparr>"

definition genre_service :: service where
  "genre_service = BaseDataService (Some ''genres'') (Some ''genre'')"

definition five_genres :: "(string \<times> string) list" where
  "five_genres = [(''g1'', ''Drama''), (''g2'', ''Comedy''), (''g3'', ''Horror''),
                  (''g4'', ''Western''), (''g5'', ''Musical'')]"

section \<open>Properties\<close>

lemmas monad_defs = await_def return_def raise_def lift_def try_except_NotFoundError_def
lemmas redis_defs = redis_command_def redis_exists_def redis_get_def redis_set_def
  set_keywords_def
  redis_lrange_def redis_rpush_def exists_reply_def get_reply_def set_reply_def
  lrange_reply_def rpush_reply_def
lemmas client_defs = es_get_def es_search_def logging_info_def
lemmas example_defs = GenreModel_def example_runtime_def example_world_def genre_service_def
  BaseDataService_def MODELS_def

subsection \<open>Fetch by identifier: the cache first\<close>

text \<open>
  C1. When the key \<open>index_name + doc_id\<close> holds a record in Redis (a non-empty string:
  \<open>doc.json()\<close> is never empty, and \<open>not data\<close> takes an empty value for a miss),
  \<open>get_by_id\<close> returns that payload parsed by the class bound to the index, whatever
  ElasticSearch holds for the id, and sends no request to ElasticSearch.
\<close>

theorem get_by_id_cache_hit:
  assumes "redis_db w (index_name self @ doc_id) = Some (RString payload ttl)"
    and "payload \<noteq> []"
    and "redis_fault w (GET (index_name self @ doc_id)) = None"
    and "MODELS rt (index_name self) = Some m"
  shows "fst (get_by_id rt self doc_id w) =
           (case parse_raw m payload of None \<Rightarrow> Inl ValidationError | Some doc \<Rightarrow> Inr (Some doc))
         \<and> elastic_log (snd (get_by_id rt self doc_id w)) = elastic_log w
         \<and> redis_db (snd (get_by_id rt self doc_id w)) = redis_db w"
  using assms
  by (simp add: get_by_id_def get_item_from_cache_def truthy_coroutine_def truthy_def
      monad_defs redis_defs client_defs split: option.splits)

theorem get_by_id_cache_hit_witness:
  "fst (get_by_id example_runtime genre_service ''g1''
           (example_world [''genresg1'' \<mapsto> RString ''g1:Drama'' (Some 300)]
              (\<lambda>i d. Inr (''g1'', ''Comedy'')) (\<lambda>i b. Inr []))) = Inr (Some (''g1'', ''Drama''))
   \<and> elastic_log (snd (get_by_id example_runtime genre_service ''g1''
           (example_world [''genresg1'' \<mapsto> RString ''g1:Drama'' (Some 300)]
              (\<lambda>i d. Inr (''g1'', ''Comedy'')) (\<lambda>i b. Inr [])))) = []"
  using get_by_id_cache_hit [of
      "example_world [''genresg1'' \<mapsto> RString ''g1:Drama'' (Some 300)]
              (\<lambda>i d. Inr (''g1'', ''Comedy'')) (\<lambda>i b. Inr [])"
      genre_service "''g1''" "''g1:Drama''" "Some 300" example_runtime GenreModel]
  by (simp add: example_defs)

lemmas by_id_defs = get_by_id_def get_item_from_cache_def get_item_from_elastic_def
  put_item_to_cache_def truthy_coroutine_def truthy_def CACHE_EXPIRE_IN_SECONDS_def

text \<open>
  C2. \<open>_put_item_to_cache\<close> calls \<open>redis.set(key, doc.json(), expire=300)\<close>, and \<open>set\<close> of
  \<open>redis.asyncio.Redis\<close> has no keyword \<open>expire\<close>: the call raises \<open>TypeError\<close> and no
  command is sent. So a fetch that misses the cache and finds a conforming document in
  ElasticSearch raises \<open>TypeError\<close> to the caller; the only command Redis received is
  the \<open>GET\<close>, and its keyspace is unchanged: nothing is written under
  \<open>index_name + doc_id\<close>.
\<close>

theorem get_by_id_miss_raises_TypeError:
  assumes miss: "redis_db w (index_name self @ doc_id) = None"
    and get_ok: "redis_fault w (GET (index_name self @ doc_id)) = None"
    and es: "elastic_get w (index_name self) doc_id = Inr src"
    and bound: "MODELS rt (index_name self) = Some m"
    and conforms: "construct m src = Some doc"
  shows "fst (get_by_id rt self doc_id w) = Inl TypeError
       \<and> redis_db (snd (get_by_id rt self doc_id w)) = redis_db w
       \<and> redis_log (snd (get_by_id rt self doc_id w)) =
           redis_log w @ [GET (index_name self @ doc_id)]
       \<and> elastic_log (snd (get_by_id rt self doc_id w)) =
           elastic_log w @ [EsGet (index_name self) doc_id]"
  using assms
  by (simp add: by_id_defs monad_defs redis_defs client_defs)

text \<open>
  The scenario of the specification: the service is bound to \<open>genres\<close>, Redis is empty
  and ElasticSearch holds \<open>g1\<close>. The fetch raises, Redis stays empty, and the next fetch
  asks ElasticSearch again.
\<close>

theorem get_by_id_miss_raises_TypeError_witness:
  "(case get_by_id example_runtime genre_service ''g1''
           (example_world Map.empty
              (\<lambda>i d. if i = ''genres'' \<and> d = ''g1'' then Inr (''g1'', ''Drama'') else Inl NotFoundError)
              (\<lambda>i b. Inr [])) of (r1, w1) \<Rightarrow>
      r1 = Inl TypeError
    \<and> redis_db w1 = Map.empty
    \<and> redis_log w1 = [GET ''genresg1'']
    \<and> (case get_by_id example_runtime genre_service ''g1'' w1 of (r2, w2) \<Rightarrow>
          r2 = Inl TypeError
        \<and> elastic_log w2 = [EsGet ''genres'' ''g1'', EsGet ''genres'' ''g1'']))"
  using get_by_id_miss_raises_TypeError [of
      "example_world Map.empty
              (\<lambda>i d. if i = ''genres'' \<and> d = ''g1'' then Inr (''g1'', ''Drama'') else Inl NotFoundError)
              (\<lambda>i b. Inr [])"
      genre_service "''g1''" "(''g1'', ''Drama'')" example_runtime GenreModel "(''g1'', ''Drama'')"]
  by (simp add: example_defs by_id_defs monad_defs redis_defs client_defs split: prod.splits)

text \<open>
  C5. For an id that is absent from Redis, \<open>NotFoundError\<close> from ElasticSearch makes
  \<open>get_by_id\<close> return \<open>None\<close> (and nothing is written to Redis); every other exception of
  \<open>elastic.get\<close>, and an exception of the Redis client on the read, reaches the caller
  as it was raised.
\<close>

theorem get_by_id_absent_and_failures:
  "(redis_db w (index_name self @ doc_id) = None
      \<and> redis_fault w (GET (index_name self @ doc_id)) = None
      \<and> elastic_get w (index_name self) doc_id = Inl NotFoundError
    \<longrightarrow> fst (get_by_id rt self doc_id w) = Inr None
        \<and> redis_db (snd (get_by_id rt self doc_id w)) = redis_db w)
   \<and> (redis_db w (index_name self @ doc_id) = None
      \<and> redis_fault w (GET (index_name self @ doc_id)) = None
      \<and> elastic_get w (index_name self) doc_id = Inl e \<and> e \<noteq> NotFoundError
    \<longrightarrow> fst (get_by_id rt self doc_id w) = Inl e)
   \<and> (redis_fault w (GET (index_name self @ doc_id)) = Some e
    \<longrightarrow> fst (get_by_id rt self doc_id w) = Inl e)"
  by (simp add: by_id_defs monad_defs redis_defs client_defs)

theorem get_by_id_absent_and_failures_witness:
  "fst (get_by_id example_runtime genre_service ''g1''
          (example_world Map.empty (\<lambda>i d. Inl NotFoundError) (\<lambda>i b. Inr []))) = Inr None
   \<and> fst (get_by_id example_runtime genre_service ''g1''
          (example_world Map.empty (\<lambda>i d. Inl ConnectionTimeout) (\<lambda>i b. Inr []))) = Inl ConnectionTimeout
   \<and> fst (get_by_id example_runtime genre_service ''g1''
          ((example_world Map.empty (\<lambda>i d. Inr (''g1'', ''Drama'')) (\<lambda>i b. Inr []))
             \<lparr>redis_fault := (\<lambda>c. Some ConnectionError)\<rparr>)) = Inl ConnectionError"
  using get_by_id_absent_and_failures [where
      w = "example_world Map.empty (\<lambda>i d. Inl NotFoundError) (\<lambda>i b. Inr [])"
      and self = genre_service and doc_id = "''g1''" and rt = example_runtime]
    get_by_id_absent_and_failures [where
      w = "example_world Map.empty (\<lambda>i d. Inl ConnectionTimeout) (\<lambda>i b. Inr [])"
      and self = genre_service and doc_id = "''g1''" and e = ConnectionTimeout
      and rt = example_runtime]
    get_by_id_absent_and_failures [where
      w = "(example_world Map.empty (\<lambda>i d. Inr (''g1'', ''Drama'')) (\<lambda>i b. Inr []))
             \<lparr>redis_fault := (\<lambda>c. Some ConnectionError)\<rparr>"
      and self = genre_service and doc_id = "''g1''" and e = ConnectionError
      and rt = example_runtime]
  by (simp add: example_defs)

lemma elastic_log_get_item_from_elastic:
  "elastic_log (snd (get_item_from_elastic rt self doc_id w)) =
     elastic_log w @ [EsGet (index_name self) doc_id]"
  by (simp add: get_item_from_elastic_def monad_defs client_defs
      split: sum.splits option.splits)

lemma elastic_log_put_item_to_cache:
  "elastic_log (snd (put_item_to_cache rt self doc w)) = elastic_log w"
  by (simp add: put_item_to_cache_def monad_defs client_defs redis_defs Let_def
      split: option.splits)

lemma get_item_from_cache_eq:
  "get_item_from_cache self doc_id w =
     redis_get (index_name self @ doc_id)
       (w\<lparr>logging := logging w @ [''['' @ service_name self @ ''] from cache by id'']\<rparr>)"
  by (simp add: get_item_from_cache_def truthy_coroutine_def monad_defs client_defs)

lemma redis_get_logging:
  "redis_get k (w\<lparr>logging := l\<rparr>) =
     (fst (redis_get k w), (snd (redis_get k w))\<lparr>logging := l\<rparr>)"
  by (simp add: redis_defs Let_def split: option.splits rvalue.splits)

lemma elastic_log_redis_get: "elastic_log (snd (redis_get k w)) = elastic_log w"
  by (simp add: redis_defs Let_def split: option.splits rvalue.splits)

lemma redis_log_redis_get: "redis_log (snd (redis_get k w)) = redis_log w @ [GET k]"
  by (simp add: redis_defs Let_def split: option.splits rvalue.splits)

lemma elastic_log_get_by_id:
  "elastic_log (snd (get_by_id rt self doc_id w)) =
     (if fst (redis_get (index_name self @ doc_id) w) = Inr None
         \<or> fst (redis_get (index_name self @ doc_id) w) = Inr (Some [])
      then elastic_log w @ [EsGet (index_name self) doc_id]
      else elastic_log w)"
proof -
  obtain r w1 where g: "redis_get (index_name self @ doc_id) w = (r, w1)"
    by (cases "redis_get (index_name self @ doc_id) w")
  have w1: "elastic_log w1 = elastic_log w"
    using elastic_log_redis_get [of "index_name self @ doc_id" w] g by simp
  show ?thesis
  proof (cases r)
    case (Inl e)
    with g w1 show ?thesis
      by (simp add: get_by_id_def get_item_from_cache_eq redis_get_logging await_def)
  next
    case (Inr data)
    show ?thesis
    proof (cases "truthy data")
      case True
      with g w1 Inr show ?thesis
        by (auto simp add: get_by_id_def get_item_from_cache_eq redis_get_logging await_def
            truthy_def raise_def return_def split: option.splits)
    next
      case False
      let ?w2 = "w1\<lparr>logging := logging w @ [''['' @ service_name self @ ''] from cache by id'']\<rparr>"
      have e: "elastic_log (snd (get_item_from_elastic rt self doc_id ?w2)) =
                 elastic_log w @ [EsGet (index_name self) doc_id]"
        using w1 by (simp add: elastic_log_get_item_from_elastic)
      obtain r3 w3 where g3: "get_item_from_elastic rt self doc_id ?w2 = (r3, w3)"
        by (cases "get_item_from_elastic rt self doc_id ?w2")
      have "elastic_log (snd (get_by_id rt self doc_id w)) =
              elastic_log w @ [EsGet (index_name self) doc_id]"
        using g Inr False e g3
        by (simp add: get_by_id_def get_item_from_cache_eq redis_get_logging await_def
            return_def elastic_log_put_item_to_cache split: sum.splits option.splits prod.splits)
          (metis elastic_log_put_item_to_cache snd_conv)
      moreover have "r = Inr None \<or> r = Inr (Some [])"
        using Inr False by (auto simp add: truthy_def split: option.splits)
      ultimately show ?thesis using g by simp
    qed
  qed
qed

text \<open>
  C9. In \<open>_get_item_from_cache\<close> the condition is the coroutine object of
  \<open>redis.exists(doc_id)\<close>, on the bare id, never awaited: on every call the branch is
  taken (the line is logged), the only command sent is \<open>GET index_name + doc_id\<close>, and
  \<open>get_by_id\<close> goes to ElasticSearch exactly when that \<open>GET\<close> yields no value (\<open>None\<close>,
  or the empty value, which Python takes for false).
\<close>

theorem get_item_from_cache_ignores_exists:
  "get_item_from_cache self doc_id w =
     redis_get (index_name self @ doc_id)
       (w\<lparr>logging := logging w @ [''['' @ service_name self @ ''] from cache by id'']\<rparr>)
   \<and> redis_log (snd (get_item_from_cache self doc_id w)) =
       redis_log w @ [GET (index_name self @ doc_id)]
   \<and> elastic_log (snd (get_by_id rt self doc_id w)) =
       (if fst (redis_get (index_name self @ doc_id) w) = Inr None
           \<or> fst (redis_get (index_name self @ doc_id) w) = Inr (Some [])
        then elastic_log w @ [EsGet (index_name self) doc_id]
        else elastic_log w)"
  using elastic_log_get_by_id [of rt self doc_id w]
  by (simp add: get_item_from_cache_eq redis_get_logging redis_log_redis_get)

theorem get_item_from_cache_ignores_exists_witness:
  "elastic_log (snd (get_by_id example_runtime genre_service ''g1''
      (example_world [''g1'' \<mapsto> RString ''g1:Drama'' None]
         (\<lambda>i d. Inl NotFoundError) (\<lambda>i b. Inr [])))) = [EsGet ''genres'' ''g1'']
   \<and> elastic_log (snd (get_by_id example_runtime genre_service ''g1''
      (example_world [''genresg1'' \<mapsto> RString ''g1:Drama'' None]
         (\<lambda>i d. Inl NotFoundError) (\<lambda>i b. Inr [])))) = []
   \<and> logging (snd (get_item_from_cache genre_service ''g1''
      (example_world Map.empty (\<lambda>i d. Inl NotFoundError) (\<lambda>i b. Inr []))
        :: (exn + string option) \<times> (string, string \<times> string) world)) = [''[genre] from cache by id'']"
  using get_item_from_cache_ignores_exists [where self = genre_service and doc_id = "''g1''"
      and w = "example_world [''g1'' \<mapsto> RString ''g1:Drama'' None]
         (\<lambda>i d. Inl NotFoundError) (\<lambda>i b. Inr [])" and rt = example_runtime]
  by (simp add: example_defs by_id_defs monad_defs redis_defs client_defs)

subsection \<open>Fetch by query\<close>

lemmas data_defs = get_data_def get_full_data_from_cache_def put_full_data_to_cache_def
  get_data_from_elastic_def get_hash_def truthy_def


lemma lrange_slice_0: "lrange_slice xs 0 stop = take (nat ((if stop < 0 then int (length xs) + stop else stop) + 1)) xs"
  by (simp add: lrange_slice_def Let_def)


lemma lrange_slice_all: "0 \<le> stop \<Longrightarrow> int (length xs) \<le> stop + 1 \<Longrightarrow> lrange_slice xs 0 stop = xs"
  by (simp add: lrange_slice_0)

lemma parse_items_unbound:
  "MODELS rt (index_name self) = None \<Longrightarrow> xs \<noteq> [] \<Longrightarrow> parse_items rt self xs = Inl KeyError"
  by (cases xs) simp_all

lemma construct_hits_unbound:
  "MODELS rt (index_name self) = None \<Longrightarrow> xs \<noteq> [] \<Longrightarrow> construct_hits rt self xs = Inl KeyError"
  by (cases xs) simp_all

lemma parse_items_roundtrip:
  "MODELS rt (index_name self) = Some m \<Longrightarrow> \<forall>d\<in>set docs. parse_raw m (json rt d) = Some d \<Longrightarrow>
   parse_items rt self (map (json rt) docs) = Inr docs"
  by (induction docs) simp_all

lemma parse_items_eq:
  "MODELS rt (index_name self) = Some m \<Longrightarrow>
   parse_items rt self xs =
     (if \<exists>x\<in>set xs. parse_raw m x = None then Inl ValidationError
      else Inr (map (\<lambda>x. the (parse_raw m x)) xs))"
  by (induction xs) (auto split: option.splits sum.splits)

lemma construct_hits_eq:
  "MODELS rt (index_name self) = Some m \<Longrightarrow>
   construct_hits rt self xs =
     (if \<exists>x\<in>set xs. construct m x = None then Inl ValidationError
      else Inr (map (\<lambda>x. the (construct m x)) xs))"
  by (induction xs) (auto split: option.splits sum.splits)


lemma construct_hits_not_NotFoundError: "construct_hits rt self xs \<noteq> Inl NotFoundError"
  by (induction xs) (auto split: option.splits sum.splits)

text \<open>The two paths of \<open>_get_data\<close>.\<close>

lemma get_data_from_cache:
  assumes "key = get_hash rt (str_body rt body @ (if \<not> truthy arg then index_name self else the arg))"
    and "redis_fault w (LRANGE key 0 sz) = None"
    and "redis_db w key = Some (RList items)"
    and "lrange_slice items 0 sz \<noteq> []"
  shows "get_data rt self body sz arg w =
     (case parse_items rt self (lrange_slice items 0 sz) of
        Inl e \<Rightarrow> (Inl e, w\<lparr>redis_log := redis_log w @ [LRANGE key 0 sz]\<rparr>)
      | Inr docs \<Rightarrow> (Inr (Some docs),
           w\<lparr>redis_log := redis_log w @ [LRANGE key 0 sz],
             logging := logging w @ [''['' @ service_name self @ ''] data from cache'']\<rparr>))"
  using assms(2-) unfolding get_data_def Let_def assms(1)[symmetric]
  by (simp add: get_full_data_from_cache_def monad_defs redis_defs client_defs Let_def
      split: sum.splits)

lemma get_data_from_elastic_eq:
  "get_data_from_elastic rt self body index w =
     (case elastic_search w index body of
        Inl e \<Rightarrow>
          if e = NotFoundError
          then (Inr None, w\<lparr>elastic_log := elastic_log w @ [EsSearch index body],
                   logging := logging w @ [''['' @ service_name self @ ''] can't find data in elastic'']\<rparr>)
          else (Inl e, w\<lparr>elastic_log := elastic_log w @ [EsSearch index body]\<rparr>)
      | Inr hits \<Rightarrow>
          (case construct_hits rt self hits of
             Inl e \<Rightarrow> (Inl e, w\<lparr>elastic_log := elastic_log w @ [EsSearch index body]\<rparr>)
           | Inr docs \<Rightarrow> (Inr (Some docs),
               w\<lparr>elastic_log := elastic_log w @ [EsSearch index body],
                 logging := logging w @ [''['' @ service_name self @ ''] get data from elastic'']\<rparr>)))"
  by (simp add: get_data_from_elastic_def monad_defs client_defs
      construct_hits_not_NotFoundError split: sum.splits)


lemma get_data_miss:
  assumes "index = (if \<not> truthy arg then index_name self else the arg)"
    and "key = get_hash rt (str_body rt body @ index)"
    and "redis_fault w (LRANGE key 0 sz) = None"
    and "fst (lrange_reply key 0 sz (redis_db w)) = Inr []"
  shows "get_data rt self body sz arg w =
     await (get_data_from_elastic rt self body index) (\<lambda>data.
        if data = None \<or> data = Some [] then return None
        else await (put_full_data_to_cache self (map (json rt) (the data)) key)
               (\<lambda>_. return data))
       (w\<lparr>redis_log := redis_log w @ [LRANGE key 0 sz]\<rparr>)"
proof -
  have "redis_lrange key 0 sz w = (Inr [], w\<lparr>redis_log := redis_log w @ [LRANGE key 0 sz]\<rparr>)"
    using assms(3,4)
    by (auto simp add: redis_defs Let_def split: option.splits rvalue.splits)
  then show ?thesis
    unfolding get_data_def Let_def assms(1)[symmetric] assms(2)[symmetric]
    by (simp add: get_full_data_from_cache_def await_def)
qed

text \<open>
  C6. When the bounded read of the cache collection yields nothing (the key is absent, or
  the slice is empty) and \<open>elastic.search\<close> answers with no hit or raises
  \<open>NotFoundError\<close>, \<open>_get_data\<close> returns \<open>None\<close>, the keyspace of Redis is unchanged and
  the only command sent to Redis is the \<open>LRANGE\<close>.
\<close>

theorem get_data_absent_writes_nothing:
  assumes "index = (if \<not> truthy arg then index_name self else the arg)"
    and "key = get_hash rt (str_body rt body @ index)"
    and "redis_fault w (LRANGE key 0 sz) = None"
    and "fst (lrange_reply key 0 sz (redis_db w)) = Inr []"
    and "elastic_search w index body = Inr [] \<or> elastic_search w index body = Inl NotFoundError"
  shows "fst (get_data rt self body sz arg w) = Inr None
       \<and> redis_db (snd (get_data rt self body sz arg w)) = redis_db w
       \<and> redis_log (snd (get_data rt self body sz arg w)) = redis_log w @ [LRANGE key 0 sz]"
  using assms(5)
  by (auto simp add: get_data_miss [OF assms(1-4)] get_data_from_elastic_eq await_def return_def)

theorem get_data_absent_writes_nothing_witness:
  "fst (get_data example_runtime genre_service ''q'' 2 None
          (example_world Map.empty (\<lambda>i d. Inl NotFoundError) (\<lambda>i b. Inr []))) = Inr None
   \<and> redis_db (snd (get_data example_runtime genre_service ''q'' 2 None
          (example_world Map.empty (\<lambda>i d. Inl NotFoundError) (\<lambda>i b. Inr [])))) = Map.empty
   \<and> fst (get_data example_runtime genre_service ''q'' 2 (Some ''movies'')
          (example_world Map.empty (\<lambda>i d. Inl NotFoundError) (\<lambda>i b. Inl NotFoundError))) = Inr None"
  using get_data_absent_writes_nothing [where arg = None and self = genre_service
      and rt = example_runtime and body = "''q''" and sz = 2
      and w = "example_world Map.empty (\<lambda>i d. Inl NotFoundError) (\<lambda>i b. Inr [])",
      OF refl refl]
    get_data_absent_writes_nothing [where arg = "Some ''movies''" and self = genre_service
      and rt = example_runtime and body = "''q''" and sz = 2
      and w = "example_world Map.empty (\<lambda>i d. Inl NotFoundError) (\<lambda>i b. Inl NotFoundError)",
      OF refl refl]
  by (simp add: example_world_def lrange_reply_def)

lemma get_data_populates:
  assumes "index = (if \<not> truthy arg then index_name self else the arg)"
    and "key = get_hash rt (str_body rt body @ index)"
    and "redis_db w key = None"
    and "redis_fault w (LRANGE key 0 sz) = None"
    and "redis_fault w (RPUSH key (map (json rt) docs)) = None"
    and "elastic_search w index body = Inr hits"
    and "construct_hits rt self hits = Inr docs"
    and "docs \<noteq> []"
  shows "get_data rt self body sz arg w =
     (Inr (Some docs),
      w\<lparr>redis_db := (redis_db w)(key \<mapsto> RList (map (json rt) docs)),
        redis_log := redis_log w @ [LRANGE key 0 sz, RPUSH key (map (json rt) docs)],
        elastic_log := elastic_log w @ [EsSearch index body],
        logging := logging w @ [''['' @ service_name self @ ''] get data from elastic'',
                                ''['' @ service_name self @ ''] write film_data to cache'']\<rparr>)"
proof -
  have "fst (lrange_reply key 0 sz (redis_db w)) = Inr []"
    using assms(3) by (simp add: lrange_reply_def)
  from get_data_miss [OF assms(1,2,4) this] assms(3,5-8) show ?thesis
    by (simp add: get_data_from_elastic_eq put_full_data_to_cache_def monad_defs redis_defs
        client_defs Let_def)
qed

text \<open>
  C3, as amended. When the key derived from the body and the effective index,
  \<open>str(hash(str(body) + index))\<close>, is absent from Redis, and \<open>elastic.search\<close> answers
  with at least one and at most \<open>size\<close> hits, all of which conform to the bound class
  and are parsed back from their serialisation, two calls in a row send one search to
  ElasticSearch in all and return the same records: the second call reads them with
  \<open>LRANGE\<close> from that key, whatever ElasticSearch would answer by then.
\<close>

theorem get_data_twice_one_search:
  assumes "index = (if \<not> truthy arg then index_name self else the arg)"
    and "key = get_hash rt (str_body rt body @ index)"
    and "redis_db w key = None"
    and "redis_fault w (LRANGE key 0 sz) = None"
    and "redis_fault w (RPUSH key (map (json rt) docs)) = None"
    and "elastic_search w index body = Inr hits"
    and "MODELS rt (index_name self) = Some m"
    and "construct_hits rt self hits = Inr docs"
    and "docs \<noteq> []"
    and "int (length docs) \<le> sz"
    and "\<forall>d\<in>set docs. parse_raw m (json rt d) = Some d"
  shows "(case get_data rt self body sz arg w of (r1, w1) \<Rightarrow>
            r1 = Inr (Some docs)
          \<and> redis_db w1 = (redis_db w)(key \<mapsto> RList (map (json rt) docs))
          \<and> elastic_log w1 = elastic_log w @ [EsSearch index body]
          \<and> (case get_data rt self body sz arg (w1\<lparr>elastic_search := g\<rparr>) of (r2, w2) \<Rightarrow>
                r2 = Inr (Some docs)
              \<and> elastic_log w2 = elastic_log w1
              \<and> redis_log w2 = redis_log w1 @ [LRANGE key 0 sz]))"
proof -
  let ?w1 = "w\<lparr>redis_db := (redis_db w)(key \<mapsto> RList (map (json rt) docs)),
        redis_log := redis_log w @ [LRANGE key 0 sz, RPUSH key (map (json rt) docs)],
        elastic_log := elastic_log w @ [EsSearch index body],
        logging := logging w @ [''['' @ service_name self @ ''] get data from elastic'',
                                ''['' @ service_name self @ ''] write film_data to cache'']\<rparr>"
  have first: "get_data rt self body sz arg w = (Inr (Some docs), ?w1)"
    by (rule get_data_populates [OF assms(1-6,8,9)])
  have slice: "lrange_slice (map (json rt) docs) 0 sz = map (json rt) docs"
    using assms(10) by (simp add: lrange_slice_all)
  have parsed: "parse_items rt self (map (json rt) docs) = Inr docs"
    by (rule parse_items_roundtrip [OF assms(7,11)])
  have second: "get_data rt self body sz arg (?w1\<lparr>elastic_search := g\<rparr>) =
      (Inr (Some docs),
       ?w1\<lparr>elastic_search := g,
            redis_log := redis_log ?w1 @ [LRANGE key 0 sz],
            logging := logging ?w1 @ [''['' @ service_name self @ ''] data from cache'']\<rparr>)"
    using get_data_from_cache [where w = "?w1\<lparr>elastic_search := g\<rparr>" and key = key
        and items = "map (json rt) docs" and rt = rt and body = body and arg = arg
        and self = self and sz = sz] assms(1,2,4,9) slice parsed
    by simp
  show ?thesis
    using second unfolding first by simp
qed

theorem get_data_twice_one_search_witness:
  "(case get_data example_runtime genre_service ''q'' 5 None
          (example_world Map.empty (\<lambda>i d. Inl NotFoundError) (\<lambda>i b. Inr five_genres)) of (r1, w1) \<Rightarrow>
      r1 = Inr (Some five_genres)
    \<and> elastic_log w1 = [EsSearch ''genres'' ''q'']
    \<and> (case get_data example_runtime genre_service ''q'' 5 None
               (w1\<lparr>elastic_search := (\<lambda>i b. Inl ConnectionError)\<rparr>) of (r2, w2) \<Rightarrow>
          r2 = Inr (Some five_genres) \<and> elastic_log w2 = [EsSearch ''genres'' ''q'']))"
  using get_data_twice_one_search [where rt = example_runtime and self = genre_service
      and body = "''q''" and sz = 5 and arg = None and docs = five_genres and hits = five_genres
      and m = GenreModel and g = "\<lambda>i b. Inl ConnectionError"
      and w = "example_world Map.empty (\<lambda>i d. Inl NotFoundError) (\<lambda>i b. Inr five_genres)",
      OF refl refl]
  by (simp add: example_defs five_genres_def truthy_def split: prod.splits)

lemmas eval_defs = by_id_defs data_defs monad_defs redis_defs client_defs example_defs
  lrange_slice_def Let_def

text \<open>
  The claim C3 as it was stated, for every body, size and index, fails when the search
  has no hit: nothing is cached, and the second call searches again. It also fails when
  the search has more hits than the bounded read returns: the first call returns all the
  hits, the second the records of the bounded read.
\<close>

theorem get_data_twice_one_search_counterexample:
  "(case get_data example_runtime genre_service ''q'' 2 None
          (example_world Map.empty (\<lambda>i d. Inl NotFoundError) (\<lambda>i b. Inr [])) of (r1, w1) \<Rightarrow>
      case get_data example_runtime genre_service ''q'' 2 None w1 of (r2, w2) \<Rightarrow>
        r1 = Inr None \<and> r2 = Inr None
      \<and> elastic_log w2 = [EsSearch ''genres'' ''q'', EsSearch ''genres'' ''q''])
   \<and> (case get_data example_runtime genre_service ''q'' 2 None
          (example_world Map.empty (\<lambda>i d. Inl NotFoundError) (\<lambda>i b. Inr five_genres)) of (r1, w1) \<Rightarrow>
      case get_data example_runtime genre_service ''q'' 2 None w1 of (r2, w2) \<Rightarrow>
        r1 = Inr (Some five_genres) \<and> r2 = Inr (Some (take 3 five_genres)) \<and> r1 \<noteq> r2)"
  by (simp add: eval_defs five_genres_def)




text \<open>
  C7. The bounded read is \<open>LRANGE key 0 size\<close>, and Redis includes the element at the
  stop index: a call served from the cache returns up to \<open>size + 1\<close> records. With five
  hits for a body and \<open>size = 2\<close>, the first call returns the five records of
  ElasticSearch and the second call returns three records from the cache.
\<close>

theorem get_data_reads_size_plus_one:
  "(case get_data example_runtime genre_service ''q'' 2 None
          (example_world Map.empty (\<lambda>i d. Inl NotFoundError) (\<lambda>i b. Inr five_genres)) of (r1, w1) \<Rightarrow>
      case get_data example_runtime genre_service ''q'' 2 None w1 of (r2, w2) \<Rightarrow>
        r1 = Inr (Some five_genres)
      \<and> r2 = Inr (Some [(''g1'', ''Drama''), (''g2'', ''Comedy''), (''g3'', ''Horror'')])
      \<and> elastic_log w2 = [EsSearch ''genres'' ''q''])"
  by (simp add: eval_defs five_genres_def)

subsection \<open>Payloads that do not conform, and an index that is not bound\<close>

lemma char_of_1: "char_of (49::nat) = CHR ''1''"
  by code_simp

lemma char_of_3: "char_of (51::nat) = CHR ''3''"
  by code_simp

text \<open>
  C8, as amended. In a service whose index is bound to a class, a payload that does not
  conform to the class raises \<open>ValidationError\<close> to the caller of \<open>get_by_id\<close> and of
  \<open>_get_data\<close>: a non-empty cached value, a document of \<open>elastic.get\<close>, an element of the
  bounded read of the cached list, a hit of \<open>elastic.search\<close>.
\<close>

theorem malformed_payload_propagates:
  assumes "MODELS rt (index_name self) = Some m"
    and "index = (if \<not> truthy arg then index_name self else the arg)"
    and "key = get_hash rt (str_body rt body @ index)"
  shows "(redis_db w (index_name self @ doc_id) = Some (RString payload ttl) \<and> payload \<noteq> []
            \<and> redis_fault w (GET (index_name self @ doc_id)) = None
            \<and> parse_raw m payload = None
          \<longrightarrow> fst (get_by_id rt self doc_id w) = Inl ValidationError)
       \<and> (redis_db w (index_name self @ doc_id) = None
            \<and> redis_fault w (GET (index_name self @ doc_id)) = None
            \<and> elastic_get w (index_name self) doc_id = Inr src \<and> construct m src = None
          \<longrightarrow> fst (get_by_id rt self doc_id w) = Inl ValidationError)
       \<and> (redis_db w key = Some (RList items) \<and> redis_fault w (LRANGE key 0 sz) = None
            \<and> (\<exists>item\<in>set (lrange_slice items 0 sz). parse_raw m item = None)
          \<longrightarrow> fst (get_data rt self body sz arg w) = Inl ValidationError)
       \<and> (fst (lrange_reply key 0 sz (redis_db w)) = Inr []
            \<and> redis_fault w (LRANGE key 0 sz) = None
            \<and> elastic_search w index body = Inr hits
            \<and> (\<exists>hit\<in>set hits. construct m hit = None)
          \<longrightarrow> fst (get_data rt self body sz arg w) = Inl ValidationError)"
proof (intro conjI impI)
  assume "redis_db w (index_name self @ doc_id) = Some (RString payload ttl) \<and> payload \<noteq> []
            \<and> redis_fault w (GET (index_name self @ doc_id)) = None
            \<and> parse_raw m payload = None"
  with assms(1) show "fst (get_by_id rt self doc_id w) = Inl ValidationError"
    by (simp add: by_id_defs monad_defs redis_defs client_defs)
next
  assume "redis_db w (index_name self @ doc_id) = None
            \<and> redis_fault w (GET (index_name self @ doc_id)) = None
            \<and> elastic_get w (index_name self) doc_id = Inr src \<and> construct m src = None"
  with assms(1) show "fst (get_by_id rt self doc_id w) = Inl ValidationError"
    by (simp add: by_id_defs monad_defs redis_defs client_defs)
next
  assume a: "redis_db w key = Some (RList items) \<and> redis_fault w (LRANGE key 0 sz) = None
            \<and> (\<exists>item\<in>set (lrange_slice items 0 sz). parse_raw m item = None)"
  then have ne: "lrange_slice items 0 sz \<noteq> []" by auto
  have k: "key = get_hash rt (str_body rt body @ (if \<not> truthy arg then index_name self else the arg))"
    using assms(2,3) by simp
  from a show "fst (get_data rt self body sz arg w) = Inl ValidationError"
    by (simp add: get_data_from_cache [OF k _ _ ne] parse_items_eq [OF assms(1)])
next
  assume a: "fst (lrange_reply key 0 sz (redis_db w)) = Inr []
            \<and> redis_fault w (LRANGE key 0 sz) = None
            \<and> elastic_search w index body = Inr hits
            \<and> (\<exists>hit\<in>set hits. construct m hit = None)"
  then have miss: "fst (lrange_reply key 0 sz (redis_db w)) = Inr []"
    and ok: "redis_fault w (LRANGE key 0 sz) = None" by simp_all
  from a show "fst (get_data rt self body sz arg w) = Inl ValidationError"
    by (simp add: get_data_miss [OF assms(2,3) ok miss] get_data_from_elastic_eq
        construct_hits_eq [OF assms(1)] await_def)
qed

theorem malformed_payload_propagates_witness:
  "fst (get_by_id example_runtime genre_service ''g1''
          (example_world [''genresg1'' \<mapsto> RString ''Drama'' (Some 300)]
             (\<lambda>i d. Inl NotFoundError) (\<lambda>i b. Inr []))) = Inl ValidationError
   \<and> fst (get_by_id example_runtime genre_service ''g1''
          (example_world Map.empty (\<lambda>i d. Inr ([], ''Drama'')) (\<lambda>i b. Inr []))) = Inl ValidationError
   \<and> fst (get_data example_runtime genre_service ''q'' 2 None
          (example_world [''-13'' \<mapsto> RList [''g1:Drama'', ''Comedy'']]
             (\<lambda>i d. Inl NotFoundError) (\<lambda>i b. Inr []))) = Inl ValidationError
   \<and> fst (get_data example_runtime genre_service ''q'' 2 None
          (example_world Map.empty (\<lambda>i d. Inl NotFoundError)
             (\<lambda>i b. Inr [(''g1'', ''Drama''), ([], ''Comedy'')]))) = Inl ValidationError"
proof -
  note ev = example_defs truthy_def lrange_slice_def lrange_reply_def get_hash_def
    str_int_def str_nat.simps char_of_1 char_of_3
  have 1: "fst (get_by_id example_runtime genre_service ''g1''
          (example_world [''genresg1'' \<mapsto> RString ''Drama'' (Some 300)]
             (\<lambda>i d. Inl NotFoundError) (\<lambda>i b. Inr []))) = Inl ValidationError"
    by (rule malformed_payload_propagates [where m = GenreModel and payload = "''Drama''"
          and ttl = "Some 300" and arg = None and body = "''q''" and sz = 2,
          OF _ refl refl, THEN conjunct1, THEN mp])
      (simp_all add: ev)
  have 2: "fst (get_by_id example_runtime genre_service ''g1''
          (example_world Map.empty (\<lambda>i d. Inr ([], ''Drama'')) (\<lambda>i b. Inr []))) = Inl ValidationError"
    by (rule malformed_payload_propagates [where m = GenreModel and src = "([], ''Drama'')"
          and arg = None and body = "''q''" and sz = 2,
          OF _ refl refl, THEN conjunct2, THEN conjunct1, THEN mp])
      (simp_all add: ev)
  have 3: "fst (get_data example_runtime genre_service ''q'' 2 None
          (example_world [''-13'' \<mapsto> RList [''g1:Drama'', ''Comedy'']]
             (\<lambda>i d. Inl NotFoundError) (\<lambda>i b. Inr []))) = Inl ValidationError"
    by (rule malformed_payload_propagates [where m = GenreModel
          and items = "[''g1:Drama'', ''Comedy'']" and doc_id = "''g1''",
          OF _ refl refl, THEN conjunct2, THEN conjunct2, THEN conjunct1, THEN mp])
      (simp_all add: ev)
  have 4: "fst (get_data example_runtime genre_service ''q'' 2 None
          (example_world Map.empty (\<lambda>i d. Inl NotFoundError)
             (\<lambda>i b. Inr [(''g1'', ''Drama''), ([], ''Comedy'')]))) = Inl ValidationError"
    by (rule malformed_payload_propagates [where m = GenreModel
          and hits = "[(''g1'', ''Drama''), ([], ''Comedy'')]" and doc_id = "''g1''",
          OF _ refl refl, THEN conjunct2, THEN conjunct2, THEN conjunct2, THEN mp])
      (simp_all add: ev)
  from 1 2 3 4 show ?thesis by simp
qed

text \<open>
  The claim C8 as it was stated, for every cached payload, fails on the empty value: it
  does not conform, \<open>not data\<close> takes it for a miss, and with \<open>NotFoundError\<close> from
  ElasticSearch the result is \<open>None\<close>.
\<close>

theorem malformed_payload_counterexample:
  "parse_raw (Genre example_runtime) [] = None
   \<and> fst (get_by_id example_runtime genre_service ''g1''
          (example_world [''genresg1'' \<mapsto> RString [] (Some 300)]
             (\<lambda>i d. Inl NotFoundError) (\<lambda>i b. Inr []))) = Inr None"
  by (simp add: eval_defs)

lemma MODELS_None:
  "(MODELS rt i = None) = (i \<notin> {''movies'', ''persons'', ''genres''})"
  by (simp add: MODELS_def)

text \<open>
  C10. \<open>MODELS\<close> has the three keys \<open>movies\<close>, \<open>persons\<close> and \<open>genres\<close>. With any other
  \<open>index_name\<close>, the default \<open>''\<close> included, every path that deserialises raises
  \<open>KeyError\<close>: a cache hit and a document found by \<open>get_by_id\<close>, a non-empty read of the
  cached list and a search with at least one hit in \<open>_get_data\<close>.
\<close>

theorem unbound_index_name_raises_KeyError:
  assumes "index = (if \<not> truthy arg then index_name self else the arg)"
    and "key = get_hash rt (str_body rt body @ index)"
  shows "(MODELS rt (index_name self) = None) =
           (index_name self \<notin> {''movies'', ''persons'', ''genres''})
       \<and> (index_name self \<notin> {''movies'', ''persons'', ''genres''}
            \<and> redis_db w (index_name self @ doc_id) = Some (RString payload ttl) \<and> payload \<noteq> []
            \<and> redis_fault w (GET (index_name self @ doc_id)) = None
          \<longrightarrow> fst (get_by_id rt self doc_id w) = Inl KeyError)
       \<and> (index_name self \<notin> {''movies'', ''persons'', ''genres''}
            \<and> redis_db w (index_name self @ doc_id) = None
            \<and> redis_fault w (GET (index_name self @ doc_id)) = None
            \<and> elastic_get w (index_name self) doc_id = Inr src
          \<longrightarrow> fst (get_by_id rt self doc_id w) = Inl KeyError)
       \<and> (index_name self \<notin> {''movies'', ''persons'', ''genres''}
            \<and> redis_db w key = Some (RList items) \<and> redis_fault w (LRANGE key 0 sz) = None
            \<and> lrange_slice items 0 sz \<noteq> []
          \<longrightarrow> fst (get_data rt self body sz arg w) = Inl KeyError)
       \<and> (index_name self \<notin> {''movies'', ''persons'', ''genres''}
            \<and> fst (lrange_reply key 0 sz (redis_db w)) = Inr []
            \<and> redis_fault w (LRANGE key 0 sz) = None
            \<and> elastic_search w index body = Inr hits \<and> hits \<noteq> []
          \<longrightarrow> fst (get_data rt self body sz arg w) = Inl KeyError)"
proof (intro conjI impI)
  show "(MODELS rt (index_name self) = None) =
          (index_name self \<notin> {''movies'', ''persons'', ''genres''})"
    by (rule MODELS_None)
next
  assume a: "index_name self \<notin> {''movies'', ''persons'', ''genres''}
            \<and> redis_db w (index_name self @ doc_id) = Some (RString payload ttl) \<and> payload \<noteq> []
            \<and> redis_fault w (GET (index_name self @ doc_id)) = None"
  then have "MODELS rt (index_name self) = None" by (simp add: MODELS_None)
  with a show "fst (get_by_id rt self doc_id w) = Inl KeyError"
    by (simp add: by_id_defs monad_defs redis_defs client_defs)
next
  assume a: "index_name self \<notin> {''movies'', ''persons'', ''genres''}
            \<and> redis_db w (index_name self @ doc_id) = None
            \<and> redis_fault w (GET (index_name self @ doc_id)) = None
            \<and> elastic_get w (index_name self) doc_id = Inr src"
  then have "MODELS rt (index_name self) = None" by (simp add: MODELS_None)
  with a show "fst (get_by_id rt self doc_id w) = Inl KeyError"
    by (simp add: by_id_defs monad_defs redis_defs client_defs)
next
  assume a: "index_name self \<notin> {''movies'', ''persons'', ''genres''}
            \<and> redis_db w key = Some (RList items) \<and> redis_fault w (LRANGE key 0 sz) = None
            \<and> lrange_slice items 0 sz \<noteq> []"
  then have unbound: "MODELS rt (index_name self) = None" by (simp add: MODELS_None)
  from a have ne: "lrange_slice items 0 sz \<noteq> []" by simp
  have k: "key = get_hash rt (str_body rt body @ (if \<not> truthy arg then index_name self else the arg))"
    using assms by simp
  from a show "fst (get_data rt self body sz arg w) = Inl KeyError"
    by (simp add: get_data_from_cache [OF k _ _ ne] parse_items_unbound [OF unbound ne])
next
  assume a: "index_name self \<notin> {''movies'', ''persons'', ''genres''}
            \<and> fst (lrange_reply key 0 sz (redis_db w)) = Inr []
            \<and> redis_fault w (LRANGE key 0 sz) = None
            \<and> elastic_search w index body = Inr hits \<and> hits \<noteq> []"
  then have unbound: "MODELS rt (index_name self) = None" by (simp add: MODELS_None)
  from a have miss: "fst (lrange_reply key 0 sz (redis_db w)) = Inr []"
    and ok: "redis_fault w (LRANGE key 0 sz) = None" and ne: "hits \<noteq> []" by simp_all
  from a show "fst (get_data rt self body sz arg w) = Inl KeyError"
    by (simp add: get_data_miss [OF assms ok miss] get_data_from_elastic_eq
        construct_hits_unbound [OF unbound ne] await_def)
qed

theorem unbound_index_name_raises_KeyError_witness:
  "index_name (BaseDataService None None) = []
   \<and> fst (get_by_id example_runtime (BaseDataService None None) ''g1''
          (example_world [''g1'' \<mapsto> RString ''g1:Drama'' (Some 300)]
             (\<lambda>i d. Inl NotFoundError) (\<lambda>i b. Inr []))) = Inl KeyError
   \<and> fst (get_by_id example_runtime (BaseDataService None None) ''g1''
          (example_world Map.empty (\<lambda>i d. Inr (''g1'', ''Drama'')) (\<lambda>i b. Inr []))) = Inl KeyError
   \<and> fst (get_data example_runtime (BaseDataService None None) ''q'' 2 (Some ''genres'')
          (example_world Map.empty (\<lambda>i d. Inl NotFoundError)
             (\<lambda>i b. Inr [(''g1'', ''Drama'')]))) = Inl KeyError"
proof -
  note ev = example_defs truthy_def lrange_slice_def lrange_reply_def
  have 1: "fst (get_by_id example_runtime (BaseDataService None None) ''g1''
          (example_world [''g1'' \<mapsto> RString ''g1:Drama'' (Some 300)]
             (\<lambda>i d. Inl NotFoundError) (\<lambda>i b. Inr []))) = Inl KeyError"
    by (rule unbound_index_name_raises_KeyError [where payload = "''g1:Drama''"
          and ttl = "Some 300" and arg = None and body = "''q''" and sz = 2,
          OF refl refl, THEN conjunct2, THEN conjunct1, THEN mp])
      (simp add: ev)
  have 2: "fst (get_by_id example_runtime (BaseDataService None None) ''g1''
          (example_world Map.empty (\<lambda>i d. Inr (''g1'', ''Drama'')) (\<lambda>i b. Inr []))) = Inl KeyError"
    by (rule unbound_index_name_raises_KeyError [where src = "(''g1'', ''Drama'')"
          and arg = None and body = "''q''" and sz = 2,
          OF refl refl, THEN conjunct2, THEN conjunct2, THEN conjunct1, THEN mp])
      (simp add: ev)
  have 3: "fst (get_data example_runtime (BaseDataService None None) ''q'' 2 (Some ''genres'')
          (example_world Map.empty (\<lambda>i d. Inl NotFoundError)
             (\<lambda>i b. Inr [(''g1'', ''Drama'')]))) = Inl KeyError"
    by (rule unbound_index_name_raises_KeyError [where hits = "[(''g1'', ''Drama'')]"
          and doc_id = "''g1''",
          OF refl refl, THEN conjunct2, THEN conjunct2, THEN conjunct2, THEN conjunct2, THEN mp])
      (simp add: ev)
  from 1 2 3 show ?thesis by (simp add: BaseDataService_def)
qed

end
